theory Spec2Isabelle
  imports Complex_Main "HOL-Library.Word" "HOL-Library.Multiset"
begin

section \<open>Data model (\<^verbatim>\<open>supabase/migrations/20250709101518_lingering_portal.sql\<close>)\<close>

text \<open>
  The five tables of the migration, one record per row type. Field names carry a table
  prefix because several tables share column names. \<open>uuid\<close> values are opaque text.
  \<open>date\<close> and \<open>timestamptz\<close> values are points of a linear order, modelled as integers
  (day number, microseconds). Text that the client trims or parses is a JavaScript
  string: a sequence of 16-bit code units.
\<close>

type_synonym uuid = string
type_synonym code_unit = "16 word"
type_synonym jsstring = "code_unit list"

text \<open>\<^verbatim>\<open>role text NOT NULL CHECK (role IN ('doctor', 'patient'))\<close>\<close>

datatype role = Doctor | Patient

record user =
  u_id :: uuid
  u_email :: string
  u_full_name :: string
  u_role :: role

record doctor_patient_link =
  dpl_id :: uuid
  dpl_doctor_id :: uuid
  dpl_patient_id :: uuid

record message =
  m_id :: uuid
  m_sender_id :: uuid
  m_receiver_id :: uuid
  m_message :: jsstring
  m_timestamp :: int

text \<open>\<^verbatim>\<open>status text NOT NULL DEFAULT 'upcoming' CHECK (status IN ('upcoming', 'completed', 'cancelled'))\<close>\<close>

datatype status = Upcoming | Completed | Cancelled

record checkup =
  c_id :: uuid
  c_doctor_id :: uuid
  c_patient_id :: uuid
  c_date :: int
  c_purpose :: string
  c_status :: status
  c_notes :: "string option"

text \<open>
  A JavaScript number as the client computes it from a form field: \<open>NaN\<close>, an infinity, or
  a finite value. \<open>Num q\<close> stands for the double nearest to the rational \<open>q\<close>. Rounding
  inside the range of the doubles is not modelled; a value beyond that range is an
  infinity (\<open>number_of_rat\<close> below).
\<close>

datatype number = NaN | PosInfinity | NegInfinity | Num rat

text \<open>
  A stored row of \<open>health_logs\<close>. The metric columns are nullable:
  \<^verbatim>\<open>steps integer DEFAULT 0, water_ml integer DEFAULT 0, heart_rate integer DEFAULT 0,
  sleep_hours decimal(3,1) DEFAULT 0\<close>.
\<close>

record health_log =
  hl_id :: uuid
  hl_user_id :: uuid
  hl_date :: int
  hl_steps :: "int option"
  hl_water_ml :: "int option"
  hl_heart_rate :: "int option"
  hl_sleep_hours :: "rat option"
  hl_notes :: "jsstring option"

text \<open>
  The object the client hands to \<open>insert\<close> on \<open>health_logs\<close>: the date as the text of the
  form field, the metrics as JavaScript numbers.
\<close>

record health_log_insert =
  hli_user_id :: uuid
  hli_date :: jsstring
  hli_steps :: number
  hli_water_ml :: number
  hli_heart_rate :: number
  hli_sleep_hours :: number
  hli_notes :: "jsstring option"

record database =
  users :: "user list"
  health_logs :: "health_log list"
  doctor_patient_links :: "doctor_patient_link list"
  messages :: "message list"
  checkups :: "checkup list"

section \<open>Row-level security policies\<close>

text \<open>
  Every policy is \<open>TO authenticated\<close>; \<open>uid\<close> is the value of \<open>auth.uid()\<close> of the
  session that issues the statement. A sub-select inside a policy reads the other tables
  through their own policies, so it sees only the rows visible to \<open>uid\<close>.
\<close>

text \<open>"Users can read own profile", "Users can update own profile": \<open>USING (auth.uid() = id)\<close>\<close>

definition users_can_read_own_profile :: "uuid \<Rightarrow> user \<Rightarrow> bool" where
  "users_can_read_own_profile uid u \<longleftrightarrow> uid = u_id u"

definition users_can_update_own_profile :: "uuid \<Rightarrow> user \<Rightarrow> bool" where
  "users_can_update_own_profile uid u \<longleftrightarrow> uid = u_id u"

text \<open>"Doctors can view their patient links": \<open>USING (doctor_id = auth.uid())\<close>\<close>

definition doctors_can_view_their_patient_links :: "uuid \<Rightarrow> doctor_patient_link \<Rightarrow> bool" where
  "doctors_can_view_their_patient_links uid dpl \<longleftrightarrow> dpl_doctor_id dpl = uid"

text \<open>"Patients can view their doctor links": \<open>USING (patient_id = auth.uid())\<close>\<close>

definition patients_can_view_their_doctor_links :: "uuid \<Rightarrow> doctor_patient_link \<Rightarrow> bool" where
  "patients_can_view_their_doctor_links uid dpl \<longleftrightarrow> dpl_patient_id dpl = uid"

text \<open>The rows of \<open>users\<close> and \<open>doctor_patient_links\<close> that a \<open>SELECT\<close> by \<open>uid\<close> sees.\<close>

definition visible_users :: "database \<Rightarrow> uuid \<Rightarrow> user list" where
  "visible_users db uid = filter (users_can_read_own_profile uid) (users db)"

definition visible_links :: "database \<Rightarrow> uuid \<Rightarrow> doctor_patient_link list" where
  "visible_links db uid =
     filter (\<lambda>dpl. doctors_can_view_their_patient_links uid dpl
                 \<or> patients_can_view_their_doctor_links uid dpl)
            (doctor_patient_links db)"

text \<open>"Patients can manage own health logs": \<open>FOR ALL USING (auth.uid() = user_id)\<close>\<close>

definition patients_can_manage_own_health_logs :: "uuid \<Rightarrow> health_log \<Rightarrow> bool" where
  "patients_can_manage_own_health_logs uid hl \<longleftrightarrow> uid = hl_user_id hl"

text \<open>
  "Doctors can view assigned patients' health logs":
  \<^verbatim>\<open>
  FOR SELECT USING (EXISTS (
    SELECT 1 FROM doctor_patient_links dpl
    JOIN users u ON u.id = dpl.doctor_id
    WHERE dpl.patient_id = health_logs.user_id
    AND dpl.doctor_id = auth.uid()
    AND u.role = 'doctor'))
  \<close>
\<close>

definition doctors_can_view_assigned_patients_health_logs ::
  "database \<Rightarrow> uuid \<Rightarrow> health_log \<Rightarrow> bool" where
  "doctors_can_view_assigned_patients_health_logs db uid hl \<longleftrightarrow>
     (\<exists>dpl \<in> set (visible_links db uid). \<exists>u \<in> set (visible_users db uid).
        u_id u = dpl_doctor_id dpl
        \<and> dpl_patient_id dpl = hl_user_id hl
        \<and> dpl_doctor_id dpl = uid
        \<and> u_role u = Doctor)"

text \<open>
  "Users can view messages they sent or received":
  \<open>FOR SELECT USING (sender_id = auth.uid() OR receiver_id = auth.uid())\<close>
\<close>

definition users_can_view_messages_they_sent_or_received :: "uuid \<Rightarrow> message \<Rightarrow> bool" where
  "users_can_view_messages_they_sent_or_received uid m \<longleftrightarrow>
     m_sender_id m = uid \<or> m_receiver_id m = uid"

text \<open>"Users can send messages": \<open>FOR INSERT WITH CHECK (sender_id = auth.uid())\<close>\<close>

definition users_can_send_messages :: "uuid \<Rightarrow> message \<Rightarrow> bool" where
  "users_can_send_messages uid m \<longleftrightarrow> m_sender_id m = uid"

text \<open>
  "Doctors can manage checkups for their patients":
  \<^verbatim>\<open>
  FOR ALL USING (
    doctor_id = auth.uid() OR
    (patient_id = auth.uid() AND EXISTS (
      SELECT 1 FROM users WHERE id = auth.uid() AND role = 'patient')))
  \<close>
\<close>

definition doctors_can_manage_checkups_for_their_patients ::
  "database \<Rightarrow> uuid \<Rightarrow> checkup \<Rightarrow> bool" where
  "doctors_can_manage_checkups_for_their_patients db uid c \<longleftrightarrow>
     c_doctor_id c = uid
     \<or> (c_patient_id c = uid
        \<and> (\<exists>u \<in> set (visible_users db uid). u_id u = uid \<and> u_role u = Patient))"

subsection \<open>The decision per table and statement\<close>

text \<open>
  The policies of a table are permissive: a statement passes when one of the policies
  declared for its command (or \<open>FOR ALL\<close>) passes, and is refused when the table has no
  policy for the command. A \<open>FOR ALL\<close> policy with only a \<open>USING\<close> clause applies the same
  expression as \<open>WITH CHECK\<close> to the rows an \<open>INSERT\<close> or \<open>UPDATE\<close> writes. For \<open>Insert\<close> the
  resource is the new row, for the other statements the existing row.
\<close>

datatype operation = Select | Insert | Update | Delete

datatype resource =
    UserRow user
  | HealthLogRow health_log
  | LinkRow doctor_patient_link
  | MessageRow message
  | CheckupRow checkup

datatype decision = Allow | Deny

fun permitted :: "database \<Rightarrow> uuid \<Rightarrow> operation \<Rightarrow> resource \<Rightarrow> bool" where
  "permitted db uid Select (UserRow u) = users_can_read_own_profile uid u"
| "permitted db uid Update (UserRow u) = users_can_update_own_profile uid u"
| "permitted db uid Select (HealthLogRow hl) =
     (patients_can_manage_own_health_logs uid hl
      \<or> doctors_can_view_assigned_patients_health_logs db uid hl)"
| "permitted db uid _ (HealthLogRow hl) = patients_can_manage_own_health_logs uid hl"
| "permitted db uid Select (LinkRow dpl) =
     (doctors_can_view_their_patient_links uid dpl
      \<or> patients_can_view_their_doctor_links uid dpl)"
| "permitted db uid Select (MessageRow m) = users_can_view_messages_they_sent_or_received uid m"
| "permitted db uid Insert (MessageRow m) = users_can_send_messages uid m"
| "permitted db uid _ (CheckupRow c) = doctors_can_manage_checkups_for_their_patients db uid c"
| "permitted db uid _ _ = False"

definition decide :: "database \<Rightarrow> uuid \<Rightarrow> operation \<Rightarrow> resource \<Rightarrow> decision" where
  "decide db uid op r = (if permitted db uid op r then Allow else Deny)"

text \<open>\<open>id uuid PRIMARY KEY\<close> on \<open>users\<close>: no two rows share an id.\<close>

definition users_primary_key :: "database \<Rightarrow> bool" where
  "users_primary_key db \<longleftrightarrow> distinct (map u_id (users db))"

section \<open>The store's statements\<close>

text \<open>
  What a statement issued through the client does to the tables, for the session whose
  \<open>auth.uid()\<close> is \<open>uid\<close>. A refused or failed statement is an error value and changes
  nothing. Values the store generates itself (\<open>gen_random_uuid()\<close>, \<open>now()\<close>) are
  arguments. Foreign keys (\<open>REFERENCES users(id)\<close>) are checked against the whole
  \<open>users\<close> table, after the \<open>WITH CHECK\<close> of the policies.
\<close>

datatype error = Forbidden | StoreError

definition references_user :: "database \<Rightarrow> uuid \<Rightarrow> bool" where
  "references_user db k \<longleftrightarrow> k \<in> set (map u_id (users db))"

definition insert_message :: "database \<Rightarrow> uuid \<Rightarrow> message \<Rightarrow> error + database" where
  "insert_message db uid m =
     (if \<not> permitted db uid Insert (MessageRow m) then Inl Forbidden
      else if \<not> (references_user db (m_sender_id m) \<and> references_user db (m_receiver_id m))
        then Inl StoreError
      else Inr (db\<lparr>messages := messages db @ [m]\<rparr>))"

text \<open>
  How the store fits a number of the request into a column. The request is JSON, where
  \<open>NaN\<close> and the infinities are written \<open>null\<close>, and \<open>null\<close> is stored as \<open>NULL\<close>. An
  \<open>integer\<close> column takes a whole number from \<open>-2^31\<close> to \<open>2^31 - 1\<close> and fails the statement
  on any other number. A \<open>decimal(3,1)\<close> column rounds to one decimal place, halves away
  from zero, and fails the statement when the rounded value does not lie strictly
  between \<open>-100\<close> and \<open>100\<close>. The store reads the decimal text the client writes for the
  double; for a value of up to 15 significant digits that text denotes the value itself,
  which is what is modelled.
\<close>

definition integer_column :: "number \<Rightarrow> error + int option" where
  "integer_column x =
     (case x of
        Num q \<Rightarrow>
          if of_int \<lfloor>q\<rfloor> = q \<and> - (2 ^ 31) \<le> \<lfloor>q\<rfloor> \<and> \<lfloor>q\<rfloor> < 2 ^ 31 then Inr (Some \<lfloor>q\<rfloor>)
          else Inl StoreError
      | _ \<Rightarrow> Inr None)"

text \<open>The number of tenths nearest to \<open>q\<close>, halves away from zero.\<close>

definition round_tenths :: "rat \<Rightarrow> int" where
  "round_tenths q = (if 0 \<le> q then \<lfloor>q * 10 + 1 / 2\<rfloor> else - \<lfloor>- q * 10 + 1 / 2\<rfloor>)"

definition decimal_3_1_column :: "number \<Rightarrow> error + rat option" where
  "decimal_3_1_column x =
     (case x of
        Num q \<Rightarrow>
          if \<bar>round_tenths q\<bar> < 1000 then Inr (Some (of_int (round_tenths q) / 10))
          else Inl StoreError
      | _ \<Rightarrow> Inr None)"

text \<open>
  \<^verbatim>\<open>from('health_logs').insert({...})\<close>. \<open>parse_date\<close> is the store's reading of a text as
  a \<open>date\<close>. A text it cannot read, or a metric that does not fit its column, fails the
  statement before the policy is checked.
\<close>

definition insert_health_log ::
  "(jsstring \<Rightarrow> int option) \<Rightarrow> database \<Rightarrow> uuid \<Rightarrow> uuid \<Rightarrow> health_log_insert
     \<Rightarrow> error + database" where
  "insert_health_log parse_date db uid new_id p =
     (case (parse_date (hli_date p),
            integer_column (hli_steps p), integer_column (hli_water_ml p),
            integer_column (hli_heart_rate p), decimal_3_1_column (hli_sleep_hours p)) of
        (Some day, Inr steps, Inr water_ml, Inr heart_rate, Inr sleep_hours) \<Rightarrow>
          (let hl = \<lparr>hl_id = new_id, hl_user_id = hli_user_id p, hl_date = day,
                     hl_steps = steps, hl_water_ml = water_ml, hl_heart_rate = heart_rate,
                     hl_sleep_hours = sleep_hours, hl_notes = hli_notes p\<rparr>
           in if \<not> permitted db uid Insert (HealthLogRow hl) then Inl Forbidden
              else if \<not> references_user db (hl_user_id hl) then Inl StoreError
              else Inr (db\<lparr>health_logs := health_logs db @ [hl]\<rparr>))
      | _ \<Rightarrow> Inl StoreError)"

text \<open>
  A filter operand is a uuid rendered into the request. An absent value (\<open>user?.id\<close> of a
  null user) renders as the text \<open>undefined\<close>, which is no uuid, and the store answers
  with an error.

  \<open>ORDER BY\<close> is a sort on the key; the order among rows with equal keys is not
  determined by the statement, and is here the storage order.
\<close>

definition thread_filter :: "uuid \<Rightarrow> uuid \<Rightarrow> message \<Rightarrow> bool" where
  "thread_filter a b m \<longleftrightarrow>
     (m_sender_id m = a \<and> m_receiver_id m = b) \<or> (m_sender_id m = b \<and> m_receiver_id m = a)"

text \<open>
  \<^verbatim>\<open>from('messages').select(...)
    .or(`and(sender_id.eq.${a},receiver_id.eq.${b}),and(sender_id.eq.${b},receiver_id.eq.${a})`)
    .order('timestamp', { ascending: true })\<close>
\<close>

definition select_thread ::
  "database \<Rightarrow> uuid \<Rightarrow> uuid option \<Rightarrow> uuid option \<Rightarrow> error + message list" where
  "select_thread db uid a b =
     (case (a, b) of
        (Some a', Some b') \<Rightarrow>
          Inr (sort_key m_timestamp
                 (filter (\<lambda>m. permitted db uid Select (MessageRow m) \<and> thread_filter a' b' m)
                         (messages db)))
      | _ \<Rightarrow> Inl StoreError)"

text \<open>
  \<^verbatim>\<open>from('health_logs').select('*').eq('user_id', p).order('date', { ascending: false })\<close>,
  with \<^verbatim>\<open>.limit(n)\<close> when a limit is given.
\<close>

definition select_health_logs ::
  "database \<Rightarrow> uuid \<Rightarrow> uuid option \<Rightarrow> nat option \<Rightarrow> error + health_log list" where
  "select_health_logs db uid p row_limit =
     (case p of
        None \<Rightarrow> Inl StoreError
      | Some p' \<Rightarrow>
          (let rows = sort_key (\<lambda>hl. - hl_date hl)
                        (filter (\<lambda>hl. permitted db uid Select (HealthLogRow hl) \<and> hl_user_id hl = p')
                                (health_logs db))
           in Inr (case row_limit of None \<Rightarrow> rows | Some n \<Rightarrow> take n rows)))"

text \<open>
  \<^verbatim>\<open>from('checkups').select(...).eq('doctor_id', d).order('date', { ascending: true })\<close>
\<close>

definition select_checkups_of_doctor ::
  "database \<Rightarrow> uuid \<Rightarrow> uuid option \<Rightarrow> error + checkup list" where
  "select_checkups_of_doctor db uid d =
     (case d of
        None \<Rightarrow> Inl StoreError
      | Some d' \<Rightarrow>
          Inr (sort_key c_date
                 (filter (\<lambda>c. permitted db uid Select (CheckupRow c) \<and> c_doctor_id c = d')
                         (checkups db))))"

text \<open>
  \<^verbatim>\<open>from('checkups').update({ status }).eq('id', checkupId)\<close>: every row with that id
  that passes \<open>USING\<close> is rewritten; the statement fails when a rewritten row does not pass
  \<open>WITH CHECK\<close>. The statement does not look at the status the row has.
\<close>

definition update_checkup_status ::
  "database \<Rightarrow> uuid \<Rightarrow> uuid \<Rightarrow> status \<Rightarrow> error + database" where
  "update_checkup_status db uid checkupId s =
     (let hit = (\<lambda>c. c_id c = checkupId \<and> permitted db uid Update (CheckupRow c))
      in if \<exists>c \<in> set (checkups db).
              hit c \<and> \<not> permitted db uid Update (CheckupRow (c\<lparr>c_status := s\<rparr>))
         then Inl Forbidden
         else Inr (db\<lparr>checkups :=
                       map (\<lambda>c. if hit c then c\<lparr>c_status := s\<rparr> else c) (checkups db)\<rparr>))"

section \<open>JavaScript strings and numbers\<close>

text \<open>
  \<open>String.prototype.trim\<close> removes leading and trailing white space and line terminators:
  TAB, LF, VT, FF, CR, SP, NBSP, U+1680, U+2000..U+200A, U+2028, U+2029, U+202F, U+205F,
  U+3000 and U+FEFF.
\<close>

definition is_white_space :: "code_unit \<Rightarrow> bool" where
  "is_white_space c \<longleftrightarrow>
     c \<in> set [0x09, 0x0A, 0x0B, 0x0C, 0x0D, 0x20, 0xA0, 0x1680,
              0x2028, 0x2029, 0x202F, 0x205F, 0x3000, 0xFEFF]
     \<or> (0x2000 \<le> c \<and> c \<le> 0x200A)"

definition trimStart :: "jsstring \<Rightarrow> jsstring" where
  "trimStart s = dropWhile is_white_space s"

definition trimEnd :: "jsstring \<Rightarrow> jsstring" where
  "trimEnd s = rev (dropWhile is_white_space (rev s))"

definition trim :: "jsstring \<Rightarrow> jsstring" where
  "trim s = trimEnd (trimStart s)"

text \<open>A string is falsy exactly when it is empty.\<close>

definition falsy_string :: "jsstring \<Rightarrow> bool" where
  "falsy_string s \<longleftrightarrow> s = []"

text \<open>
  \<open>parseInt(string)\<close> without a radix: skip leading white space, take an optional sign,
  take \<open>0x\<close> or \<open>0X\<close> as the mark of radix 16 (radix 10 otherwise), read the longest run of
  digits of the radix. No digit gives \<open>NaN\<close>.
\<close>

definition digit_of :: "code_unit \<Rightarrow> nat option" where
  "digit_of c =
     (if 0x30 \<le> c \<and> c \<le> 0x39 then Some (unat c - 0x30)
      else if 0x61 \<le> c \<and> c \<le> 0x7A then Some (unat c - 0x61 + 10)
      else if 0x41 \<le> c \<and> c \<le> 0x5A then Some (unat c - 0x41 + 10)
      else None)"

definition is_radix_digit :: "nat \<Rightarrow> code_unit \<Rightarrow> bool" where
  "is_radix_digit R c = (case digit_of c of Some d \<Rightarrow> d < R | None \<Rightarrow> False)"

definition radix_value :: "nat \<Rightarrow> jsstring \<Rightarrow> nat" where
  "radix_value R Z = foldl (\<lambda>acc c. acc * R + (case digit_of c of Some d \<Rightarrow> d | None \<Rightarrow> 0)) 0 Z"

text \<open>The optional sign: \<open>+\<close> is 0x2B, \<open>-\<close> is 0x2D.\<close>

fun strip_sign :: "jsstring \<Rightarrow> int \<times> jsstring" where
  "strip_sign [] = (1, [])"
| "strip_sign (c # cs) =
     (if c = 0x2D then (-1, cs) else if c = 0x2B then (1, cs) else (1, c # cs))"

fun strip_hex_prefix :: "jsstring \<Rightarrow> nat \<times> jsstring" where
  "strip_hex_prefix (c # d # cs) =
     (if c = 0x30 \<and> (d = 0x78 \<or> d = 0x58) then (16, cs) else (10, c # d # cs))"
| "strip_hex_prefix cs = (10, cs)"

text \<open>
  The number for a mathematical value: the largest double is \<open>2^1024 - 2^971\<close>, and a value
  of at least \<open>2^1024 - 2^970\<close> in magnitude rounds to an infinity.
\<close>

definition number_of_rat :: "rat \<Rightarrow> number" where
  "number_of_rat q =
     (if 2 ^ 1024 - 2 ^ 970 \<le> q then PosInfinity
      else if q \<le> - (2 ^ 1024 - 2 ^ 970) then NegInfinity
      else Num q)"

definition parseInt :: "jsstring \<Rightarrow> number" where
  "parseInt s =
     (let (sign, S) = strip_sign (trimStart s);
          (R, S') = strip_hex_prefix S;
          Z = takeWhile (is_radix_digit R) S'
      in if Z = [] then NaN else number_of_rat (of_int (sign * int (radix_value R Z))))"

text \<open>
  \<open>parseFloat(string)\<close>: skip leading white space, then read the longest prefix that is a
  decimal literal: an optional sign, then \<open>Infinity\<close>, or digits with an optional fraction
  and an optional exponent (at least one digit before or after the point; the exponent
  counts only when a digit follows its sign). No such prefix gives \<open>NaN\<close>.
\<close>

definition is_decimal_digit :: "code_unit \<Rightarrow> bool" where
  "is_decimal_digit c \<longleftrightarrow> 0x30 \<le> c \<and> c \<le> 0x39"

definition infinity_literal :: jsstring where
  "infinity_literal = [0x49, 0x6E, 0x66, 0x69, 0x6E, 0x69, 0x74, 0x79]"

fun exponent_part :: "jsstring \<Rightarrow> int" where
  "exponent_part [] = 0"
| "exponent_part (c # cs) =
     (if c = 0x65 \<or> c = 0x45 then
        (let (esign, ds) = strip_sign cs; E = takeWhile is_decimal_digit ds
         in if E = [] then 0 else esign * int (radix_value 10 E))
      else 0)"

definition scale10 :: "rat \<Rightarrow> int \<Rightarrow> rat" where
  "scale10 m k = (if 0 \<le> k then m * 10 ^ nat k else m / 10 ^ nat (- k))"

definition parseFloat :: "jsstring \<Rightarrow> number" where
  "parseFloat s =
     (let (sign, S) = strip_sign (trimStart s)
      in if take 8 S = infinity_literal then (if sign < 0 then NegInfinity else PosInfinity)
         else
           (let ip = takeWhile is_decimal_digit S;
                r1 = dropWhile is_decimal_digit S;
                (fp, r2) = (case r1 of
                              [] \<Rightarrow> ([], r1)
                            | c # cs \<Rightarrow>
                                if c = 0x2E
                                then (takeWhile is_decimal_digit cs, dropWhile is_decimal_digit cs)
                                else ([], r1))
            in if ip = [] \<and> fp = [] then NaN
               else number_of_rat
                      (scale10 (of_int (sign * int (radix_value 10 (ip @ fp))))
                               (exponent_part r2 - int (length fp)))))"

text \<open>\<open>x || 0\<close> on a number: \<open>NaN\<close> and zero are falsy, every other number is kept.\<close>

fun or_zero :: "number \<Rightarrow> number" where
  "or_zero NaN = Num 0"
| "or_zero (Num q) = (if q = 0 then Num 0 else Num q)"
| "or_zero x = x"

section \<open>The client components\<close>

text \<open>
  A handler takes the component's state and the tables and gives the new state, the new
  tables and the toasts it shows. The calls of a handler run to completion in program
  order; statements of other sessions do not interleave. \<open>user\<close> is the record the
  \<open>useAuth\<close> hook supplies (null while nobody is signed in); \<open>uid\<close> is the session's
  \<open>auth.uid()\<close>.
\<close>

datatype toast = ToastSuccess | ToastError error

subsection \<open>DoctorChat (\<^verbatim>\<open>unnamed/part_002\<close>)\<close>

record doctor_chat =
  dc_user :: "user option"
  dc_patientId :: "uuid option"
  dc_messages :: "message list"
  dc_newMessage :: jsstring
  dc_loading :: bool
  dc_sending :: bool

text \<open>\<open>!patientId\<close>: the route parameter is \<open>undefined\<close> or the empty string.\<close>

definition falsy_id :: "uuid option \<Rightarrow> bool" where
  "falsy_id p = (case p of None \<Rightarrow> True | Some k \<Rightarrow> k = [])"

definition DoctorChat_fetchMessages :: "database \<Rightarrow> uuid \<Rightarrow> doctor_chat \<Rightarrow> doctor_chat" where
  "DoctorChat_fetchMessages db uid st =
     (if falsy_id (dc_patientId st) \<or> dc_user st = None then st
      else (case select_thread db uid (map_option u_id (dc_user st)) (dc_patientId st) of
              Inl e \<Rightarrow> st\<lparr>dc_loading := False\<rparr>
            | Inr data \<Rightarrow> st\<lparr>dc_messages := data, dc_loading := False\<rparr>))"

definition DoctorChat_sendMessage ::
  "database \<Rightarrow> uuid \<Rightarrow> uuid \<Rightarrow> int \<Rightarrow> doctor_chat \<Rightarrow> doctor_chat \<times> database \<times> toast list" where
  "DoctorChat_sendMessage db uid new_id now st =
     (case (dc_user st, dc_patientId st) of
        (Some user, Some patientId) \<Rightarrow>
          if falsy_string (trim (dc_newMessage st)) \<or> falsy_id (Some patientId) \<or> dc_sending st
          then (st, db, [])
          else
            (case insert_message db uid
                    \<lparr>m_id = new_id, m_sender_id = u_id user, m_receiver_id = patientId,
                     m_message = trim (dc_newMessage st), m_timestamp = now\<rparr> of
               Inl e \<Rightarrow> (st\<lparr>dc_sending := False\<rparr>, db, [ToastError e])
             | Inr db' \<Rightarrow>
                 ((DoctorChat_fetchMessages db' uid (st\<lparr>dc_newMessage := []\<rparr>))
                    \<lparr>dc_sending := False\<rparr>, db', []))
      | _ \<Rightarrow> (st, db, []))"

subsection \<open>Chat (\<^verbatim>\<open>unnamed/part_002\<close>)\<close>

record chat =
  ch_user :: "user option"
  ch_doctor :: "user option"
  ch_messages :: "message list"
  ch_newMessage :: jsstring
  ch_loading :: bool
  ch_sending :: bool

text \<open>The guard is \<open>if (!doctor && !user) return;\<close>, the operands are \<open>user?.id\<close> and \<open>doctor?.id\<close>.\<close>

definition Chat_fetchMessages :: "database \<Rightarrow> uuid \<Rightarrow> chat \<Rightarrow> chat" where
  "Chat_fetchMessages db uid st =
     (if ch_doctor st = None \<and> ch_user st = None then st
      else (case select_thread db uid (map_option u_id (ch_user st))
                                      (map_option u_id (ch_doctor st)) of
              Inl e \<Rightarrow> st\<lparr>ch_loading := False\<rparr>
            | Inr data \<Rightarrow> st\<lparr>ch_messages := data, ch_loading := False\<rparr>))"

definition Chat_sendMessage ::
  "database \<Rightarrow> uuid \<Rightarrow> uuid \<Rightarrow> int \<Rightarrow> chat \<Rightarrow> chat \<times> database \<times> toast list" where
  "Chat_sendMessage db uid new_id now st =
     (case (ch_user st, ch_doctor st) of
        (Some user, Some doctor) \<Rightarrow>
          if falsy_string (trim (ch_newMessage st)) \<or> ch_sending st
          then (st, db, [])
          else
            (case insert_message db uid
                    \<lparr>m_id = new_id, m_sender_id = u_id user, m_receiver_id = u_id doctor,
                     m_message = trim (ch_newMessage st), m_timestamp = now\<rparr> of
               Inl e \<Rightarrow> (st\<lparr>ch_sending := False\<rparr>, db, [ToastError e])
             | Inr db' \<Rightarrow>
                 ((Chat_fetchMessages db' uid (st\<lparr>ch_newMessage := []\<rparr>))
                    \<lparr>ch_sending := False\<rparr>, db', []))
      | _ \<Rightarrow> (st, db, []))"

subsection \<open>HealthHistory and DoctorDashboard (\<^verbatim>\<open>src/pages/DoctorDashboard.tsx\<close>)\<close>

record health_history =
  hh_user :: "user option"
  hh_healthLogs :: "health_log list"
  hh_loading :: bool

definition fetchHealthLogs :: "database \<Rightarrow> uuid \<Rightarrow> health_history \<Rightarrow> health_history" where
  "fetchHealthLogs db uid st =
     (case select_health_logs db uid (map_option u_id (hh_user st)) None of
        Inl e \<Rightarrow> st\<lparr>hh_loading := False\<rparr>
      | Inr data \<Rightarrow> st\<lparr>hh_healthLogs := data, hh_loading := False\<rparr>)"

record doctor_dashboard =
  dd_user :: "user option"
  dd_selectedPatient :: "user option"
  dd_patientHealthLogs :: "health_log list"

definition fetchPatientHealthLogs ::
  "database \<Rightarrow> uuid \<Rightarrow> doctor_dashboard \<Rightarrow> uuid \<Rightarrow> doctor_dashboard" where
  "fetchPatientHealthLogs db uid st patientId =
     (case select_health_logs db uid (Some patientId) (Some 7) of
        Inl e \<Rightarrow> st
      | Inr data \<Rightarrow> st\<lparr>dd_patientHealthLogs := data\<rparr>)"

subsection \<open>LogHealth (\<^verbatim>\<open>unnamed/part_000\<close>)\<close>

record form_data =
  fd_date :: jsstring
  fd_steps :: jsstring
  fd_water_ml :: jsstring
  fd_heart_rate :: jsstring
  fd_sleep_hours :: jsstring
  fd_notes :: jsstring

text \<open>The object literal of \<open>handleSubmit\<close>.\<close>

definition health_log_payload :: "user \<Rightarrow> form_data \<Rightarrow> health_log_insert" where
  "health_log_payload user formData =
     \<lparr>hli_user_id = u_id user,
      hli_date = fd_date formData,
      hli_steps = or_zero (parseInt (fd_steps formData)),
      hli_water_ml = or_zero (parseInt (fd_water_ml formData)),
      hli_heart_rate = or_zero (parseInt (fd_heart_rate formData)),
      hli_sleep_hours = or_zero (parseFloat (fd_sleep_hours formData)),
      hli_notes = (if falsy_string (fd_notes formData) then None else Some (fd_notes formData))\<rparr>"

text \<open>
  \<open>parse_date\<close> and \<open>new_id\<close> are the store's (see \<open>insert_health_log\<close>). The last
  component tells whether the handler navigated to the dashboard.
\<close>

definition LogHealth_handleSubmit ::
  "(jsstring \<Rightarrow> int option) \<Rightarrow> database \<Rightarrow> uuid \<Rightarrow> uuid \<Rightarrow> user option \<Rightarrow> form_data
     \<Rightarrow> database \<times> toast list \<times> bool" where
  "LogHealth_handleSubmit parse_date db uid new_id user formData =
     (case user of
        None \<Rightarrow> (db, [], False)
      | Some u \<Rightarrow>
          (case insert_health_log parse_date db uid new_id (health_log_payload u formData) of
             Inl e \<Rightarrow> (db, [ToastError e], False)
           | Inr db' \<Rightarrow> (db', [ToastSuccess], True)))"

subsection \<open>DoctorCheckups (\<^verbatim>\<open>unnamed/part_001\<close>)\<close>

record doctor_checkups =
  dk_user :: "user option"
  dk_checkups :: "checkup list"
  dk_loading :: bool

definition fetchCheckups :: "database \<Rightarrow> uuid \<Rightarrow> doctor_checkups \<Rightarrow> doctor_checkups" where
  "fetchCheckups db uid st =
     (case select_checkups_of_doctor db uid (map_option u_id (dk_user st)) of
        Inl e \<Rightarrow> st\<lparr>dk_loading := False\<rparr>
      | Inr data \<Rightarrow> st\<lparr>dk_checkups := data, dk_loading := False\<rparr>)"

text \<open>The parameter type \<open>'completed' | 'cancelled'\<close> of \<open>updateCheckupStatus\<close>.\<close>

datatype status_arg = Completed_arg | Cancelled_arg

fun status_of_arg :: "status_arg \<Rightarrow> status" where
  "status_of_arg Completed_arg = Completed"
| "status_of_arg Cancelled_arg = Cancelled"

definition updateCheckupStatus ::
  "database \<Rightarrow> uuid \<Rightarrow> doctor_checkups \<Rightarrow> uuid \<Rightarrow> status_arg
     \<Rightarrow> doctor_checkups \<times> database \<times> toast list" where
  "updateCheckupStatus db uid st checkupId s =
     (case update_checkup_status db uid checkupId (status_of_arg s) of
        Inl e \<Rightarrow> (st, db, [ToastError e])
      | Inr db' \<Rightarrow> (fetchCheckups db' uid st, db', [ToastSuccess]))"

text \<open>
  The list renders the two status buttons of a checkup only under
  \<open>checkup.status === 'upcoming'\<close>, where \<open>checkup\<close> is the row as the component holds it
  in \<open>checkups\<close>. A click on a button that is not rendered does not happen.
\<close>

definition status_buttons :: "checkup \<Rightarrow> status_arg list" where
  "status_buttons checkup =
     (if c_status checkup = Upcoming then [Completed_arg, Cancelled_arg] else [])"

definition click_status_button ::
  "database \<Rightarrow> uuid \<Rightarrow> doctor_checkups \<Rightarrow> checkup \<Rightarrow> status_arg
     \<Rightarrow> doctor_checkups \<times> database \<times> toast list" where
  "click_status_button db uid st checkup s =
     (if checkup \<in> set (dk_checkups st) \<and> s \<in> set (status_buttons checkup)
      then updateCheckupStatus db uid st (c_id checkup) s
      else (st, db, []))"

section \<open>The demo data of the migration\<close>

text \<open>
  The rows the migration inserts: one doctor, one patient, their link, three health logs
  and one checkup. \<open>today\<close> is \<open>CURRENT_DATE\<close>; the ids of the generated rows are
  placeholders for \<open>gen_random_uuid()\<close>.
\<close>

definition demo_doctor :: user where
  "demo_doctor =
     \<lparr>u_id = ''11111111-1111-1111-1111-111111111111'', u_email = ''doctor@gmail.com'',
      u_full_name = ''Dr. Sarah Johnson'', u_role = Doctor\<rparr>"

definition demo_patient :: user where
  "demo_patient =
     \<lparr>u_id = ''22222222-2222-2222-2222-222222222222'', u_email = ''patient@gmail.com'',
      u_full_name = ''John Smith'', u_role = Patient\<rparr>"

definition demo_link :: doctor_patient_link where
  "demo_link =
     \<lparr>dpl_id = ''link-1'', dpl_doctor_id = u_id demo_doctor, dpl_patient_id = u_id demo_patient\<rparr>"

definition demo_health_log :: "uuid \<Rightarrow> int \<Rightarrow> int \<Rightarrow> int \<Rightarrow> int \<Rightarrow> rat \<Rightarrow> health_log" where
  "demo_health_log k day steps water_ml heart_rate sleep_hours =
     \<lparr>hl_id = k, hl_user_id = u_id demo_patient, hl_date = day,
      hl_steps = Some steps, hl_water_ml = Some water_ml, hl_heart_rate = Some heart_rate,
      hl_sleep_hours = Some sleep_hours, hl_notes = None\<rparr>"

definition demo_checkup :: "int \<Rightarrow> checkup" where
  "demo_checkup today =
     \<lparr>c_id = ''checkup-1'', c_doctor_id = u_id demo_doctor, c_patient_id = u_id demo_patient,
      c_date = (today + 7) * 86400000000, c_purpose = ''Regular Health Checkup'',
      c_status = Upcoming, c_notes = None\<rparr>"

definition demo_database :: "int \<Rightarrow> database" where
  "demo_database today =
     \<lparr>users = [demo_doctor, demo_patient],
      health_logs =
        [demo_health_log ''log-1'' (today - 1) 8500 2000 72 (15 / 2),
         demo_health_log ''log-2'' (today - 2) 6200 1800 68 8,
         demo_health_log ''log-3'' (today - 3) 9100 2200 75 (13 / 2)],
      doctor_patient_links = [demo_link],
      messages = [],
      checkups = [demo_checkup today]\<rparr>"

section \<open>Sample states\<close>

text \<open>Concrete tables and component states over the demo data, used by the examples below.\<close>

definition sample_message :: "uuid \<Rightarrow> uuid \<Rightarrow> uuid \<Rightarrow> int \<Rightarrow> message" where
  "sample_message k a b t =
     \<lparr>m_id = k, m_sender_id = a, m_receiver_id = b, m_message = [0x48, 0x69], m_timestamp = t\<rparr>"

text \<open>Two messages between the demo patient and the demo doctor, one from a third user.\<close>

definition sample_thread_database :: database where
  "sample_thread_database =
     (demo_database 0)\<lparr>messages :=
        [sample_message ''m-1'' (u_id demo_patient) (u_id demo_doctor) 3,
         sample_message ''m-2'' (u_id demo_doctor) (u_id demo_patient) 1,
         sample_message ''m-3'' ''w'' (u_id demo_doctor) 2]\<rparr>"

definition sample_chat :: "jsstring \<Rightarrow> chat" where
  "sample_chat text =
     \<lparr>ch_user = Some demo_patient, ch_doctor = Some demo_doctor, ch_messages = [],
      ch_newMessage = text, ch_loading = True, ch_sending = False\<rparr>"

definition sample_doctor_chat :: "jsstring \<Rightarrow> doctor_chat" where
  "sample_doctor_chat text =
     \<lparr>dc_user = Some demo_doctor, dc_patientId = Some (u_id demo_patient), dc_messages = [],
      dc_newMessage = text, dc_loading = True, dc_sending = False\<rparr>"

text \<open>Eight logs of the demo patient, on the days 1 to 8, stored out of order.\<close>

definition sample_logs_database :: database where
  "sample_logs_database =
     (demo_database 0)\<lparr>health_logs :=
        map (\<lambda>(k, day). demo_health_log k day 0 0 0 0)
          [(''log-a'', 3), (''log-b'', 8), (''log-c'', 1), (''log-d'', 6),
           (''log-e'', 2), (''log-f'', 7), (''log-g'', 5), (''log-h'', 4)]\<rparr>"

definition sample_health_history :: health_history where
  "sample_health_history = \<lparr>hh_user = Some demo_patient, hh_healthLogs = [], hh_loading = True\<rparr>"

definition sample_doctor_dashboard :: doctor_dashboard where
  "sample_doctor_dashboard =
     \<lparr>dd_user = Some demo_doctor, dd_selectedPatient = Some demo_patient,
      dd_patientHealthLogs = []\<rparr>"

text \<open>The demo checkup after it was completed, and a checkup list holding given rows.\<close>

definition sample_completed_database :: database where
  "sample_completed_database =
     (demo_database 0)\<lparr>checkups := [(demo_checkup 0)\<lparr>c_status := Completed\<rparr>]\<rparr>"

definition sample_doctor_checkups :: "checkup list \<Rightarrow> doctor_checkups" where
  "sample_doctor_checkups cs = \<lparr>dk_user = Some demo_doctor, dk_checkups = cs, dk_loading = False\<rparr>"

text \<open>
  A stand-in for the store's reading of dates that reads the one text \<open>2025-07-09\<close>, as
  the day 20278 after 1970-01-01, and no other text.
\<close>

definition sample_parse_date :: "jsstring \<Rightarrow> int option" where
  "sample_parse_date s =
     (if s = [0x32, 0x30, 0x32, 0x35, 0x2D, 0x30, 0x37, 0x2D, 0x30, 0x39] then Some 20278
      else None)"

text \<open>
  A form for \<open>2025-07-09\<close> whose four metric fields are empty, \<open>ab\<close>, \<open>-\<close> and \<open>.\<close>; one
  with the steps left empty beside \<open>2000\<close>, \<open>72\<close> and \<open>7.5\<close>; and one with the steps
  \<open>3000000000\<close> beside three empty fields.
\<close>

definition sample_form :: form_data where
  "sample_form =
     \<lparr>fd_date = [0x32, 0x30, 0x32, 0x35, 0x2D, 0x30, 0x37, 0x2D, 0x30, 0x39],
      fd_steps = [], fd_water_ml = [0x61, 0x62], fd_heart_rate = [0x2D],
      fd_sleep_hours = [0x2E], fd_notes = []\<rparr>"

definition sample_form_steps_empty :: form_data where
  "sample_form_steps_empty =
     \<lparr>fd_date = [0x32, 0x30, 0x32, 0x35, 0x2D, 0x30, 0x37, 0x2D, 0x30, 0x39],
      fd_steps = [], fd_water_ml = [0x32, 0x30, 0x30, 0x30], fd_heart_rate = [0x37, 0x32],
      fd_sleep_hours = [0x37, 0x2E, 0x35], fd_notes = []\<rparr>"

definition sample_form_steps_too_large :: form_data where
  "sample_form_steps_too_large =
     \<lparr>fd_date = [0x32, 0x30, 0x32, 0x35, 0x2D, 0x30, 0x37, 0x2D, 0x30, 0x39],
      fd_steps = [0x33, 0x30, 0x30, 0x30, 0x30, 0x30, 0x30, 0x30, 0x30, 0x30],
      fd_water_ml = [], fd_heart_rate = [], fd_sleep_hours = [], fd_notes = []\<rparr>"

section \<open>Access decisions\<close>

lemmas demo_defs =
  demo_doctor_def demo_patient_def demo_link_def demo_health_log_def demo_checkup_def
  demo_database_def

lemmas sample_defs =
  sample_message_def sample_thread_database_def sample_chat_def sample_doctor_chat_def
  sample_logs_database_def sample_health_history_def sample_doctor_dashboard_def
  sample_completed_database_def sample_doctor_checkups_def sample_parse_date_def
  sample_form_def sample_form_steps_empty_def sample_form_steps_too_large_def

lemma primary_key_row_eq:
  assumes "users_primary_key db" "a \<in> set (users db)" "b \<in> set (users db)" "u_id a = u_id b"
  shows "a = b"
  using assms unfolding users_primary_key_def
  by (meson distinct_map inj_onD)

text \<open>
  For a session whose user row is a doctor, the doctors' policy on health logs is the
  existence of a link; the nested policies on \<open>users\<close> and \<open>doctor_patient_links\<close> hide
  nothing the sub-select needs.
\<close>

lemma doctor_policy_iff:
  assumes "D \<in> set (users db)" "u_role D = Doctor"
  shows "doctors_can_view_assigned_patients_health_logs db (u_id D) L \<longleftrightarrow>
         (\<exists>dpl \<in> set (doctor_patient_links db).
            dpl_doctor_id dpl = u_id D \<and> dpl_patient_id dpl = hl_user_id L)"
proof
  assume "doctors_can_view_assigned_patients_health_logs db (u_id D) L"
  then show "\<exists>dpl \<in> set (doctor_patient_links db).
            dpl_doctor_id dpl = u_id D \<and> dpl_patient_id dpl = hl_user_id L"
    unfolding doctors_can_view_assigned_patients_health_logs_def visible_links_def
    by auto
next
  assume "\<exists>dpl \<in> set (doctor_patient_links db).
            dpl_doctor_id dpl = u_id D \<and> dpl_patient_id dpl = hl_user_id L"
  then obtain dpl where l: "dpl \<in> set (doctor_patient_links db)"
      "dpl_doctor_id dpl = u_id D" "dpl_patient_id dpl = hl_user_id L"
    by blast
  have 1: "dpl \<in> set (visible_links db (u_id D))"
    using l by (simp add: visible_links_def doctors_can_view_their_patient_links_def)
  have 2: "D \<in> set (visible_users db (u_id D))"
    using assms(1) by (simp add: visible_users_def users_can_read_own_profile_def)
  show "doctors_can_view_assigned_patients_health_logs db (u_id D) L"
    unfolding doctors_can_view_assigned_patients_health_logs_def
    using 1 2 l assms(2) by (intro bexI [of _ dpl] bexI [of _ D]) simp_all
qed

text \<open>
  C1 (pairing gate). Let \<open>D\<close> and \<open>P\<close> be rows of \<open>users\<close> (whose ids are a primary key),
  \<open>D\<close> a doctor and \<open>P\<close> a patient, and \<open>L\<close> a health log with \<open>user_id = P.id\<close>. The
  decision for \<open>D\<close> reading \<open>L\<close> is \<open>Allow\<close> if and only if \<open>doctor_patient_links\<close> holds a
  row with \<open>doctor_id = D.id\<close> and \<open>patient_id = P.id\<close>; with no such row it is \<open>Deny\<close>.
\<close>

theorem pairing_gate:
  assumes "users_primary_key db" "D \<in> set (users db)" "P \<in> set (users db)"
      and "u_role D = Doctor" "u_role P = Patient" "hl_user_id L = u_id P"
  shows "(decide db (u_id D) Select (HealthLogRow L) = Allow \<longleftrightarrow>
            (\<exists>dpl \<in> set (doctor_patient_links db).
               dpl_doctor_id dpl = u_id D \<and> dpl_patient_id dpl = u_id P))
       \<and> (\<not> (\<exists>dpl \<in> set (doctor_patient_links db).
               dpl_doctor_id dpl = u_id D \<and> dpl_patient_id dpl = u_id P)
            \<longrightarrow> decide db (u_id D) Select (HealthLogRow L) = Deny)"
proof -
  have "D \<noteq> P" using assms(4,5) by auto
  then have ne: "u_id D \<noteq> hl_user_id L"
    using primary_key_row_eq [OF assms(1,2,3)] assms(6) by auto
  have own: "\<not> patients_can_manage_own_health_logs (u_id D) L"
    using ne by (simp add: patients_can_manage_own_health_logs_def)
  show ?thesis
    using own doctor_policy_iff [OF assms(2,4), of L] assms(6)
    by (simp add: decide_def)
qed

text \<open>
  On the demo data the demo doctor may read the demo patient's first log; with the link
  removed the same read is denied.
\<close>

theorem pairing_gate_witness:
  "decide (demo_database 0) (u_id demo_doctor) Select
      (HealthLogRow (demo_health_log ''log-1'' (- 1) 8500 2000 72 (15 / 2))) = Allow
   \<and> decide ((demo_database 0)\<lparr>doctor_patient_links := []\<rparr>) (u_id demo_doctor) Select
      (HealthLogRow (demo_health_log ''log-1'' (- 1) 8500 2000 72 (15 / 2))) = Deny"
  using pairing_gate [of "demo_database 0" demo_doctor demo_patient
                         "demo_health_log ''log-1'' (- 1) 8500 2000 72 (15 / 2)"]
        pairing_gate [of "(demo_database 0)\<lparr>doctor_patient_links := []\<rparr>" demo_doctor demo_patient
                         "demo_health_log ''log-1'' (- 1) 8500 2000 72 (15 / 2)"]
  by (simp add: demo_defs users_primary_key_def)

text \<open>
  C2 (no self-forgery). For every principal \<open>A\<close>, creating a message is allowed exactly
  when the new row's \<open>sender_id\<close> is \<open>A\<close>'s id; with any other \<open>sender_id\<close> the decision is
  \<open>Deny\<close> and the insert is rejected as \<open>Forbidden\<close>.
\<close>

theorem no_self_forgery:
  "(decide db (u_id A) Insert (MessageRow m) = Allow \<longleftrightarrow> m_sender_id m = u_id A)
   \<and> (m_sender_id m \<noteq> u_id A \<longrightarrow>
        decide db (u_id A) Insert (MessageRow m) = Deny
        \<and> insert_message db (u_id A) m = Inl Forbidden)"
  by (simp add: decide_def insert_message_def users_can_send_messages_def)

text \<open>The demo patient cannot insert a message that names the demo doctor as its sender.\<close>

theorem no_self_forgery_witness:
  "insert_message (demo_database 0) (u_id demo_patient)
     \<lparr>m_id = ''m-1'', m_sender_id = u_id demo_doctor, m_receiver_id = u_id demo_patient,
      m_message = [0x48, 0x69], m_timestamp = 0\<rparr> = Inl Forbidden"
  using no_self_forgery [of "demo_database 0" demo_patient
     "\<lparr>m_id = ''m-1'', m_sender_id = u_id demo_doctor, m_receiver_id = u_id demo_patient,
      m_message = [0x48, 0x69], m_timestamp = 0\<rparr>"]
  by (simp add: demo_defs)

text \<open>
  C3 (message symmetry). For every message \<open>M\<close>, reading it is allowed for the principal
  whose id is \<open>M.sender_id\<close> and for the principal whose id is \<open>M.receiver_id\<close>, and denied
  for every principal whose id is neither.
\<close>

theorem message_symmetry:
  "(u_id S = m_sender_id M \<longrightarrow> decide db (u_id S) Select (MessageRow M) = Allow)
   \<and> (u_id R = m_receiver_id M \<longrightarrow> decide db (u_id R) Select (MessageRow M) = Allow)
   \<and> (u_id X \<notin> {m_sender_id M, m_receiver_id M} \<longrightarrow>
        decide db (u_id X) Select (MessageRow M) = Deny)"
  by (auto simp: decide_def users_can_view_messages_they_sent_or_received_def)

text \<open>
  A message from the demo patient to the demo doctor: both read it, a third user does not.
\<close>

theorem message_symmetry_witness:
  "decide (demo_database 0) (u_id demo_patient) Select
     (MessageRow \<lparr>m_id = ''m-1'', m_sender_id = u_id demo_patient,
                  m_receiver_id = u_id demo_doctor, m_message = [0x48, 0x69],
                  m_timestamp = 0\<rparr>) = Allow
   \<and> decide (demo_database 0) (u_id demo_doctor) Select
     (MessageRow \<lparr>m_id = ''m-1'', m_sender_id = u_id demo_patient,
                  m_receiver_id = u_id demo_doctor, m_message = [0x48, 0x69],
                  m_timestamp = 0\<rparr>) = Allow
   \<and> decide (demo_database 0) (u_id (demo_patient\<lparr>u_id := ''w''\<rparr>)) Select
     (MessageRow \<lparr>m_id = ''m-1'', m_sender_id = u_id demo_patient,
                  m_receiver_id = u_id demo_doctor, m_message = [0x48, 0x69],
                  m_timestamp = 0\<rparr>) = Deny"
  using message_symmetry [of demo_patient
     "\<lparr>m_id = ''m-1'', m_sender_id = u_id demo_patient,
       m_receiver_id = u_id demo_doctor, m_message = [0x48, 0x69], m_timestamp = 0\<rparr>"
     "demo_database 0" demo_doctor "demo_patient\<lparr>u_id := ''w''\<rparr>"]
  by (simp add: demo_defs)

text \<open>
  C5 (checkup access). Let \<open>A\<close> be a row of \<open>users\<close> (whose ids are a primary key) and
  \<open>C\<close> a checkup. For every statement kind, access of \<open>A\<close> to \<open>C\<close> is allowed exactly when
  \<open>A.id = C.doctor_id\<close>, or \<open>A.id = C.patient_id\<close> and \<open>A\<close>'s role is patient; in every
  other case it is denied.
\<close>

theorem checkup_access:
  assumes "users_primary_key db" "A \<in> set (users db)"
  shows "\<forall>op \<in> {Select, Insert, Update, Delete}.
           (decide db (u_id A) op (CheckupRow C) = Allow \<longleftrightarrow>
              (u_id A = c_doctor_id C \<or> (u_id A = c_patient_id C \<and> u_role A = Patient)))
         \<and> (decide db (u_id A) op (CheckupRow C) = Deny \<longleftrightarrow>
              \<not> (u_id A = c_doctor_id C \<or> (u_id A = c_patient_id C \<and> u_role A = Patient)))"
proof -
  have role: "(\<exists>u \<in> set (visible_users db (u_id A)). u_id u = u_id A \<and> u_role u = Patient)
                \<longleftrightarrow> u_role A = Patient"
    using primary_key_row_eq [OF assms(1) _ assms(2)] assms(2)
    by (auto simp: visible_users_def users_can_read_own_profile_def)
  have "doctors_can_manage_checkups_for_their_patients db (u_id A) C \<longleftrightarrow>
          (u_id A = c_doctor_id C \<or> (u_id A = c_patient_id C \<and> u_role A = Patient))"
    unfolding doctors_can_manage_checkups_for_their_patients_def role by auto
  then show ?thesis
    by (simp add: decide_def)
qed

text \<open>
  On the demo data the demo patient may read and update the demo checkup; a checkup that
  names the demo doctor as its patient, under another doctor, is closed to the demo doctor.
\<close>

theorem checkup_access_witness:
  "decide (demo_database 0) (u_id demo_patient) Select (CheckupRow (demo_checkup 0)) = Allow
   \<and> decide (demo_database 0) (u_id demo_patient) Update (CheckupRow (demo_checkup 0)) = Allow
   \<and> decide (demo_database 0) (u_id demo_doctor) Select
        (CheckupRow ((demo_checkup 0)\<lparr>c_doctor_id := ''other'', c_patient_id := u_id demo_doctor\<rparr>))
      = Deny"
  using checkup_access [of "demo_database 0" demo_patient "demo_checkup 0"]
        checkup_access [of "demo_database 0" demo_doctor
          "(demo_checkup 0)\<lparr>c_doctor_id := ''other'', c_patient_id := u_id demo_doctor\<rparr>"]
  by (simp add: demo_defs users_primary_key_def)

section \<open>Messaging\<close>

lemma dropWhile_trimEnd_commute:
  "dropWhile P (rev (dropWhile P (rev xs))) = rev (dropWhile P (rev (dropWhile P xs)))"
  by (induction xs) (auto simp: dropWhile_append dest: set_dropWhileD)

lemma trimStart_trimEnd: "trimStart (trimEnd s) = trimEnd (trimStart s)"
  unfolding trimStart_def trimEnd_def by (rule dropWhile_trimEnd_commute)

lemma trim_idem: "trim (trim s) = trim s"
proof -
  have "trim (trim s) = trimEnd (trimStart (trimEnd (trimStart s)))"
    by (simp add: trim_def)
  also have "\<dots> = trimEnd (trimEnd (trimStart (trimStart s)))"
    by (simp only: trimStart_trimEnd)
  also have "\<dots> = trim s"
    by (simp add: trim_def trimStart_def trimEnd_def)
  finally show ?thesis .
qed

lemma DoctorChat_send_blank:
  "trim (dc_newMessage st) = [] \<Longrightarrow> DoctorChat_sendMessage db uid k now st = (st, db, [])"
  by (simp add: DoctorChat_sendMessage_def falsy_string_def split: option.splits)

lemma Chat_send_blank:
  "trim (ch_newMessage st) = [] \<Longrightarrow> Chat_sendMessage db uid k now st = (st, db, [])"
  by (simp add: Chat_sendMessage_def falsy_string_def split: option.splits)

text \<open>
  C6, as the code has it. For every sender, receiver and text, when the text is empty
  after trimming, \<open>sendMessage\<close> of either chat creates no message row, shows no toast and
  leaves the component as it was: the send is dropped silently, no error is surfaced.
\<close>

theorem blank_message_is_dropped_silently:
  "(trim (dc_newMessage st) = [] \<longrightarrow> DoctorChat_sendMessage db uid k now st = (st, db, []))
   \<and> (trim (ch_newMessage pst) = [] \<longrightarrow> Chat_sendMessage db uid k now pst = (pst, db, []))"
  by (simp add: DoctorChat_send_blank Chat_send_blank)

text \<open>The doctor sends a single space, the patient an empty text.\<close>

theorem blank_message_is_dropped_silently_witness:
  "DoctorChat_sendMessage (demo_database 0) (u_id demo_doctor) ''m-1'' 0
      (sample_doctor_chat [0x20])
     = (sample_doctor_chat [0x20], demo_database 0, [])
   \<and> Chat_sendMessage (demo_database 0) (u_id demo_doctor) ''m-1'' 0 (sample_chat [])
     = (sample_chat [], demo_database 0, [])"
  using blank_message_is_dropped_silently
    [of "sample_doctor_chat [0x20]" "demo_database 0" "u_id demo_doctor" "''m-1''" 0
        "sample_chat []"]
  by (simp add: sample_defs trim_def trimStart_def trimEnd_def is_white_space_def)

text \<open>
  C6, as the claim states it, fails: the patient sends a space and a tab, which trim to
  the empty text, and the handler returns with no toast at all.
\<close>

theorem blank_message_no_error_counterexample:
  "trim [0x20, 0x09] = []
   \<and> snd (snd (Chat_sendMessage (demo_database 0) (u_id demo_patient) ''m-1'' 0
                 (sample_chat [0x20, 0x09]))) = []"
  by (simp add: Chat_sendMessage_def falsy_string_def trim_def trimStart_def trimEnd_def
        is_white_space_def sample_defs)

lemma insert_message_appends:
  "insert_message db uid m = Inr db' \<Longrightarrow> messages db' = messages db @ [m]"
  by (auto simp: insert_message_def split: if_splits)

lemma DoctorChat_send_rows:
  assumes "DoctorChat_sendMessage db uid k now st = (st', db', ts)"
  shows "messages db' = messages db
         \<or> (\<exists>m. messages db' = messages db @ [m] \<and> m_message m = trim (dc_newMessage st)
                \<and> m_message m \<noteq> [] \<and> trim (m_message m) = m_message m)"
  using assms
  by (auto simp: DoctorChat_sendMessage_def falsy_string_def trim_idem
           split: option.splits if_splits sum.splits dest!: insert_message_appends)

lemma Chat_send_rows:
  assumes "Chat_sendMessage db uid k now st = (st', db', ts)"
  shows "messages db' = messages db
         \<or> (\<exists>m. messages db' = messages db @ [m] \<and> m_message m = trim (ch_newMessage st)
                \<and> m_message m \<noteq> [] \<and> trim (m_message m) = m_message m)"
  using assms
  by (auto simp: Chat_sendMessage_def falsy_string_def trim_idem
           split: option.splits if_splits sum.splits dest!: insert_message_appends)

text \<open>
  C10. \<open>sendMessage\<close> of either chat leaves the \<open>messages\<close> table as it was or appends one
  row, and the text of that row is the trimmed input, is not empty and equals its own
  trimmed form.
\<close>

theorem stored_message_is_trimmed:
  "(DoctorChat_sendMessage db uid k now st = (st', db', ts) \<longrightarrow>
      messages db' = messages db
      \<or> (\<exists>m. messages db' = messages db @ [m] \<and> m_message m = trim (dc_newMessage st)
             \<and> m_message m \<noteq> [] \<and> trim (m_message m) = m_message m))
   \<and> (Chat_sendMessage db uid k now pst = (pst', db', ts) \<longrightarrow>
      messages db' = messages db
      \<or> (\<exists>m. messages db' = messages db @ [m] \<and> m_message m = trim (ch_newMessage pst)
             \<and> m_message m \<noteq> [] \<and> trim (m_message m) = m_message m))"
  using DoctorChat_send_rows Chat_send_rows by blast

text \<open>
  The demo patient sends \<open>Hi\<close> between two spaces: the table gains one row with the text
  \<open>Hi\<close>, and the refreshed thread shows it.
\<close>

theorem stored_message_is_trimmed_witness:
  "Chat_sendMessage (demo_database 0) (u_id demo_patient) ''m-1'' 5
       (sample_chat [0x20, 0x48, 0x69, 0x20])
     = ((sample_chat [])
          \<lparr>ch_messages := [sample_message ''m-1'' (u_id demo_patient) (u_id demo_doctor) 5],
           ch_loading := False\<rparr>,
        (demo_database 0)
          \<lparr>messages := [sample_message ''m-1'' (u_id demo_patient) (u_id demo_doctor) 5]\<rparr>,
        [])
   \<and> (\<exists>m. [sample_message ''m-1'' (u_id demo_patient) (u_id demo_doctor) 5] = [m]
          \<and> m_message m = [0x48, 0x69] \<and> trim (m_message m) = m_message m)"
proof -
  have run: "Chat_sendMessage (demo_database 0) (u_id demo_patient) ''m-1'' 5
       (sample_chat [0x20, 0x48, 0x69, 0x20])
     = ((sample_chat [])
          \<lparr>ch_messages := [sample_message ''m-1'' (u_id demo_patient) (u_id demo_doctor) 5],
           ch_loading := False\<rparr>,
        (demo_database 0)
          \<lparr>messages := [sample_message ''m-1'' (u_id demo_patient) (u_id demo_doctor) 5]\<rparr>,
        [])"
    by (simp add: Chat_sendMessage_def Chat_fetchMessages_def select_thread_def
          thread_filter_def insert_message_def references_user_def falsy_string_def trim_def
          trimStart_def trimEnd_def is_white_space_def users_can_send_messages_def
          users_can_view_messages_they_sent_or_received_def demo_defs sample_defs)
  have t: "trim [0x20, 0x48, 0x69, 0x20] = [0x48, 0x69]"
    by (simp add: trim_def trimStart_def trimEnd_def is_white_space_def)
  from stored_message_is_trimmed [THEN conjunct2, rule_format, OF run]
  show ?thesis
    using run t by (simp add: demo_database_def sample_chat_def sample_message_def)
qed

lemma own_thread_visible:
  "thread_filter uid b m \<Longrightarrow> permitted db uid Select (MessageRow m)"
  by (auto simp: thread_filter_def users_can_view_messages_they_sent_or_received_def)

lemma select_thread_own:
  "select_thread db uid (Some uid) (Some b) =
     Inr (sort_key m_timestamp (filter (thread_filter uid b) (messages db)))"
proof -
  have "filter (\<lambda>m. permitted db uid Select (MessageRow m) \<and> thread_filter uid b m) (messages db)
        = filter (thread_filter uid b) (messages db)"
    by (rule filter_cong) (auto dest: own_thread_visible)
  then show ?thesis by (simp add: select_thread_def)
qed

lemma thread_filter_pair:
  "thread_filter a b m \<longleftrightarrow> (m_sender_id m, m_receiver_id m) \<in> {(a, b), (b, a)}"
  by (auto simp: thread_filter_def)

lemma DoctorChat_thread:
  assumes "dc_user st = Some u" "dc_patientId st = Some b" "b \<noteq> []" "uid = u_id u"
  shows "mset (dc_messages (DoctorChat_fetchMessages db uid st)) =
           {#m \<in># mset (messages db).
              (m_sender_id m, m_receiver_id m) \<in> {(u_id u, b), (b, u_id u)}#}
         \<and> sorted (map m_timestamp (dc_messages (DoctorChat_fetchMessages db uid st)))"
  using assms
  by (simp add: DoctorChat_fetchMessages_def falsy_id_def select_thread_own thread_filter_pair)

lemma Chat_thread:
  assumes "ch_user st = Some u" "ch_doctor st = Some d" "uid = u_id u"
  shows "mset (ch_messages (Chat_fetchMessages db uid st)) =
           {#m \<in># mset (messages db).
              (m_sender_id m, m_receiver_id m) \<in> {(u_id u, u_id d), (u_id d, u_id u)}#}
         \<and> sorted (map m_timestamp (ch_messages (Chat_fetchMessages db uid st)))"
  using assms
  by (simp add: Chat_fetchMessages_def select_thread_own thread_filter_pair)

text \<open>
  C7. For a signed-in user \<open>u\<close> (whose id is the session's \<open>auth.uid()\<close>) and a counterpart
  \<open>b\<close>, \<open>fetchMessages\<close> of either chat loads exactly the messages whose
  (sender, receiver) pair is \<open>(u, b)\<close> or \<open>(b, u)\<close>, each as often as it is stored, in
  ascending order of timestamp.
\<close>

theorem thread_is_exact_and_ascending:
  "(dc_user st = Some u \<and> dc_patientId st = Some b \<and> b \<noteq> [] \<and> uid = u_id u \<longrightarrow>
      mset (dc_messages (DoctorChat_fetchMessages db uid st)) =
        {#m \<in># mset (messages db).
           (m_sender_id m, m_receiver_id m) \<in> {(u_id u, b), (b, u_id u)}#}
      \<and> sorted (map m_timestamp (dc_messages (DoctorChat_fetchMessages db uid st))))
   \<and> (ch_user pst = Some u \<and> ch_doctor pst = Some d \<and> uid = u_id u \<longrightarrow>
      mset (ch_messages (Chat_fetchMessages db uid pst)) =
        {#m \<in># mset (messages db).
           (m_sender_id m, m_receiver_id m) \<in> {(u_id u, u_id d), (u_id d, u_id u)}#}
      \<and> sorted (map m_timestamp (ch_messages (Chat_fetchMessages db uid pst))))"
  using DoctorChat_thread [of st u b uid db] Chat_thread [of pst u d uid db] by blast

text \<open>
  Of the three sample messages the patient's chat loads the two of the thread with the
  doctor, the earlier one first; the message of the third user is left out.
\<close>

theorem thread_is_exact_and_ascending_witness:
  "ch_messages (Chat_fetchMessages sample_thread_database (u_id demo_patient) (sample_chat []))
     = [sample_message ''m-2'' (u_id demo_doctor) (u_id demo_patient) 1,
        sample_message ''m-1'' (u_id demo_patient) (u_id demo_doctor) 3]
   \<and> sorted (map m_timestamp
        (ch_messages (Chat_fetchMessages sample_thread_database (u_id demo_patient)
                        (sample_chat []))))"
  using thread_is_exact_and_ascending
    [where pst = "sample_chat []" and u = demo_patient and d = demo_doctor
       and uid = "u_id demo_patient" and db = sample_thread_database]
  by (simp add: Chat_fetchMessages_def select_thread_def thread_filter_def
        users_can_view_messages_they_sent_or_received_def demo_defs sample_defs)

section \<open>Health logs\<close>

lemma desc_sorted_sort_key:
  "sorted_wrt (\<lambda>x y. hl_date y \<le> hl_date x) (sort_key (\<lambda>hl. - hl_date hl) xs)"
proof -
  have "sorted (map (\<lambda>hl. - hl_date hl) (sort_key (\<lambda>hl. - hl_date hl) xs))"
    by (rule sorted_sort_key)
  then show ?thesis by (simp add: sorted_wrt_map)
qed

lemma own_logs_visible:
  "filter (\<lambda>hl. permitted db uid Select (HealthLogRow hl) \<and> hl_user_id hl = uid) (health_logs db)
   = filter (\<lambda>hl. hl_user_id hl = uid) (health_logs db)"
  by (rule filter_cong) (auto simp: patients_can_manage_own_health_logs_def)

lemma history_desc:
  assumes "hh_user st = Some u" "uid = u_id u"
  shows "mset (hh_healthLogs (fetchHealthLogs db uid st)) =
           {#hl \<in># mset (health_logs db). hl_user_id hl = u_id u#}
         \<and> sorted_wrt (\<lambda>x y. hl_date y \<le> hl_date x) (hh_healthLogs (fetchHealthLogs db uid st))"
  using assms
proof -
  have "select_health_logs db uid (Some uid) None =
          Inr (sort_key (\<lambda>hl. - hl_date hl) (filter (\<lambda>hl. hl_user_id hl = uid) (health_logs db)))"
    by (simp add: select_health_logs_def own_logs_visible del: permitted.simps)
  then show ?thesis
    using assms by (simp add: fetchHealthLogs_def desc_sorted_sort_key)
qed

lemma take_most_recent:
  assumes "sorted_wrt (\<lambda>x y. hl_date y \<le> hl_date x) xs"
  shows "sorted_wrt (\<lambda>x y. hl_date y \<le> hl_date x) (take n xs)
         \<and> (\<forall>x \<in> set (take n xs). \<forall>y \<in> set (drop n xs). hl_date y \<le> hl_date x)"
proof -
  have "sorted_wrt (\<lambda>x y. hl_date y \<le> hl_date x) (take n xs @ drop n xs)"
    using assms by simp
  then show ?thesis
    unfolding sorted_wrt_append by blast
qed

lemma paired_doctor_sees_all:
  assumes "D \<in> set (users db)" "u_role D = Doctor"
      and "\<exists>dpl \<in> set (doctor_patient_links db). dpl_doctor_id dpl = u_id D \<and> dpl_patient_id dpl = p"
  shows "filter (\<lambda>hl. permitted db (u_id D) Select (HealthLogRow hl) \<and> hl_user_id hl = p) (health_logs db)
         = filter (\<lambda>hl. hl_user_id hl = p) (health_logs db)"
  by (rule filter_cong) (use assms doctor_policy_iff [OF assms(1,2)] in auto)

lemma dashboard_seven:
  fixes st :: doctor_dashboard
  assumes "D \<in> set (users db)" "u_role D = Doctor"
      and "\<exists>dpl \<in> set (doctor_patient_links db). dpl_doctor_id dpl = u_id D \<and> dpl_patient_id dpl = p"
  defines "shown \<equiv> dd_patientHealthLogs (fetchPatientHealthLogs db (u_id D) st p)"
  shows "mset shown \<subseteq># {#hl \<in># mset (health_logs db). hl_user_id hl = p#}
         \<and> length shown = min 7 (size {#hl \<in># mset (health_logs db). hl_user_id hl = p#})
         \<and> sorted_wrt (\<lambda>x y. hl_date y \<le> hl_date x) shown
         \<and> (\<forall>x \<in> set shown.
              \<forall>y \<in># {#hl \<in># mset (health_logs db). hl_user_id hl = p#} - mset shown.
                hl_date y \<le> hl_date x)"
proof -
  define rows where
    "rows = sort_key (\<lambda>hl. - hl_date hl) (filter (\<lambda>hl. hl_user_id hl = p) (health_logs db))"
  have all: "mset rows = {#hl \<in># mset (health_logs db). hl_user_id hl = p#}"
    by (simp add: rows_def)
  have "select_health_logs db (u_id D) (Some p) (Some 7) = Inr (take 7 rows)"
    by (simp add: select_health_logs_def rows_def paired_doctor_sees_all [OF assms(1,2,3)]
             del: permitted.simps)
  then have shown: "shown = take 7 rows"
    by (simp add: shown_def fetchPatientHealthLogs_def)
  have split: "mset rows = mset shown + mset (drop 7 rows)"
    unfolding shown by (metis append_take_drop_id mset_append)
  have s: "sorted_wrt (\<lambda>x y. hl_date y \<le> hl_date x) rows"
    unfolding rows_def by (rule desc_sorted_sort_key)
  have 1: "mset shown \<subseteq># mset rows" using split by simp
  have 2: "length shown = min 7 (size (mset rows))" by (simp add: shown)
  have 3: "mset rows - mset shown = mset (drop 7 rows)" using split by simp
  show ?thesis
    using 1 2 take_most_recent [OF s, of 7] unfolding 3 all [symmetric] shown [symmetric]
    by simp
qed

text \<open>
  C8. For a signed-in patient \<open>P\<close> (whose id is the session's \<open>auth.uid()\<close>),
  \<open>fetchHealthLogs\<close> loads exactly the health logs with \<open>user_id = P.id\<close>, each once per
  stored row, in descending order of date. For a doctor \<open>D\<close> linked to the patient \<open>p\<close>,
  \<open>fetchPatientHealthLogs\<close> loads at most 7 of \<open>p\<close>'s logs (7, or all of them when there
  are fewer), in descending order of date, and no log of \<open>p\<close> that is left out is more
  recent than a loaded one.
\<close>

theorem history_descending_dashboard_latest_seven:
  "(hh_user hst = Some P \<longrightarrow>
      mset (hh_healthLogs (fetchHealthLogs db (u_id P) hst)) =
        {#hl \<in># mset (health_logs db). hl_user_id hl = u_id P#}
      \<and> sorted_wrt (\<lambda>x y. hl_date y \<le> hl_date x)
           (hh_healthLogs (fetchHealthLogs db (u_id P) hst)))
   \<and> (D \<in> set (users db) \<and> u_role D = Doctor
       \<and> (\<exists>dpl \<in> set (doctor_patient_links db).
             dpl_doctor_id dpl = u_id D \<and> dpl_patient_id dpl = p) \<longrightarrow>
      mset (dd_patientHealthLogs (fetchPatientHealthLogs db (u_id D) dst p))
        \<subseteq># {#hl \<in># mset (health_logs db). hl_user_id hl = p#}
      \<and> length (dd_patientHealthLogs (fetchPatientHealthLogs db (u_id D) dst p))
          = min 7 (size {#hl \<in># mset (health_logs db). hl_user_id hl = p#})
      \<and> sorted_wrt (\<lambda>x y. hl_date y \<le> hl_date x)
           (dd_patientHealthLogs (fetchPatientHealthLogs db (u_id D) dst p))
      \<and> (\<forall>x \<in> set (dd_patientHealthLogs (fetchPatientHealthLogs db (u_id D) dst p)).
           \<forall>y \<in># {#hl \<in># mset (health_logs db). hl_user_id hl = p#}
                   - mset (dd_patientHealthLogs (fetchPatientHealthLogs db (u_id D) dst p)).
             hl_date y \<le> hl_date x))"
  using history_desc [of hst P "u_id P" db] dashboard_seven [of D db p dst] by blast

text \<open>
  With eight logs on the days 1 to 8 the patient's history lists all eight from day 8
  down, and the linked doctor's dashboard the seven from day 8 down to day 2.
\<close>

theorem history_descending_dashboard_latest_seven_witness:
  "map hl_date (hh_healthLogs (fetchHealthLogs sample_logs_database (u_id demo_patient)
                                 sample_health_history))
     = [8, 7, 6, 5, 4, 3, 2, 1]
   \<and> map hl_date (dd_patientHealthLogs
        (fetchPatientHealthLogs sample_logs_database (u_id demo_doctor)
           sample_doctor_dashboard (u_id demo_patient)))
     = [8, 7, 6, 5, 4, 3, 2]"
  using history_descending_dashboard_latest_seven
    [where hst = sample_health_history and P = demo_patient and db = sample_logs_database
       and D = demo_doctor and p = "u_id demo_patient" and dst = sample_doctor_dashboard]
  by (simp add: fetchHealthLogs_def fetchPatientHealthLogs_def select_health_logs_def
        patients_can_manage_own_health_logs_def
        doctors_can_view_assigned_patients_health_logs_def visible_links_def visible_users_def
        users_can_read_own_profile_def doctors_can_view_their_patient_links_def
        patients_can_view_their_doctor_links_def demo_defs sample_defs)





lemma floor_rat_numeral:
  "\<lfloor>(numeral a :: rat) / numeral b\<rfloor> = numeral a div numeral b"
  "\<lfloor>- ((numeral a :: rat) / numeral b)\<rfloor> = - numeral a div numeral b"
  by (metis floor_divide_of_int_eq of_int_numeral,
      metis floor_divide_of_int_eq of_int_numeral of_int_minus minus_divide_left)













text \<open>
  The sample texts as the parsers read them. A submission with the steps \<open>3000000000\<close>
  beside three empty fields is refused by the \<open>integer\<close> column, with an error toast and
  no row. Some values at the columns.
\<close>

lemma sample_parses:
  "parseInt [] = NaN" "parseInt [0x61, 0x62] = NaN" "parseInt [0x2D] = NaN"
  "parseFloat [0x2E] = NaN" "parseFloat [] = NaN"
  "parseInt [0x32, 0x30, 0x30, 0x30] = Num 2000" "parseInt [0x37, 0x32] = Num 72"
  "parseFloat [0x37, 0x2E, 0x35] = Num (15 / 2)"
  "parseInt [0x33, 0x30, 0x30, 0x30, 0x30, 0x30, 0x30, 0x30, 0x30, 0x30] = Num 3000000000"
  by (simp_all add: parseInt_def parseFloat_def trimStart_def is_white_space_def
        is_radix_digit_def digit_of_def is_decimal_digit_def infinity_literal_def
        radix_value_def number_of_rat_def scale10_def)

lemma steps_out_of_range_is_rejected:
  "LogHealth_handleSubmit sample_parse_date (demo_database 0) (u_id demo_patient) ''log-4''
     (Some demo_patient) sample_form_steps_too_large
   = (demo_database 0, [ToastError StoreError], False)"
  by (simp add: LogHealth_handleSubmit_def insert_health_log_def health_log_payload_def
        integer_column_def sample_parses sample_form_steps_too_large_def sample_parse_date_def
        falsy_string_def)


lemma column_examples:
  "integer_column (Num 3000000000) = Inl StoreError"
  "integer_column (Num (3 / 2)) = Inl StoreError"
  "integer_column PosInfinity = Inr None"
  "decimal_3_1_column (Num (29 / 4)) = Inr (Some (73 / 10))"
  "decimal_3_1_column (Num (- (29 / 4))) = Inr (Some (- (73 / 10)))"
  "decimal_3_1_column (Num (1999 / 20)) = Inl StoreError"
  "decimal_3_1_column (Num 100) = Inl StoreError"
  by (simp_all add: integer_column_def decimal_3_1_column_def round_tenths_def
        floor_rat_numeral)


section \<open>Checkups\<close>

lemma update_keeps_ids:
  "update_checkup_status db uid k s = Inr db' \<Longrightarrow> map c_id (checkups db') = map c_id (checkups db)"
  by (auto simp: update_checkup_status_def Let_def split: if_splits)

lemma update_keeps_other_rows:
  assumes "update_checkup_status db uid k s = Inr db'" "C \<in> set (checkups db)" "c_id C \<noteq> k"
  shows "C \<in> set (checkups db')"
proof -
  from assms(1) have "checkups db' =
      map (\<lambda>c. if c_id c = k \<and> permitted db uid Update (CheckupRow c)
                then c\<lparr>c_status := s\<rparr> else c) (checkups db)"
    by (auto simp: update_checkup_status_def Let_def simp del: permitted.simps split: if_splits)
  then show ?thesis
    using assms(2,3) by (force simp: image_iff simp del: permitted.simps)
qed

lemma fetchCheckups_rows:
  "dk_user st \<noteq> None \<Longrightarrow> set (dk_checkups (fetchCheckups db uid st)) \<subseteq> set (checkups db)"
  by (auto simp: fetchCheckups_def select_checkups_of_doctor_def simp del: permitted.simps)

lemma checkup_primary_key:
  assumes "distinct (map c_id (checkups db))" "a \<in> set (checkups db)" "b \<in> set (checkups db)"
      and "c_id a = c_id b"
  shows "a = b"
  using assms by (meson distinct_map inj_onD)

text \<open>
  C4, as the code has it. Let the checkup ids be unique and the doctor's list in sync with
  the table (every row the list holds is a stored row). For every stored checkup \<open>C\<close>
  whose status is completed or cancelled, a click on a status button of the list leaves
  \<open>C\<close> as it is: the buttons are rendered only for rows held as upcoming. The click keeps
  the ids unique, and keeps the list in sync when a user is signed in.
\<close>

theorem terminal_status_kept_by_list_clicks:
  assumes "distinct (map c_id (checkups db))"
      and "set (dk_checkups st) \<subseteq> set (checkups db)"
      and "C \<in> set (checkups db)"
      and "c_status C = Completed \<or> c_status C = Cancelled"
      and "click_status_button db uid st checkup s = (st', db', ts)"
  shows "C \<in> set (checkups db')
         \<and> distinct (map c_id (checkups db'))
         \<and> (dk_user st \<noteq> None \<longrightarrow> set (dk_checkups st') \<subseteq> set (checkups db'))"
proof (cases "checkup \<in> set (dk_checkups st) \<and> c_status checkup = Upcoming")
  case False
  then have "st' = st" "db' = db"
    using assms(5) by (auto simp: click_status_button_def status_buttons_def)
  then show ?thesis using assms(1,2,3) by simp
next
  case True
  then have row: "checkup \<in> set (checkups db)" using assms(2) by blast
  have "checkup \<noteq> C" using True assms(4) by auto
  then have other: "c_id C \<noteq> c_id checkup"
    using checkup_primary_key [OF assms(1) assms(3) row] by blast
  have run: "updateCheckupStatus db uid st (c_id checkup) s = (st', db', ts)"
    using True assms(5) by (cases s) (simp_all add: click_status_button_def status_buttons_def)
  show ?thesis
  proof (cases "update_checkup_status db uid (c_id checkup) (status_of_arg s)")
    case (Inl e)
    then have "st' = st" "db' = db"
      using run by (simp_all add: updateCheckupStatus_def)
    then show ?thesis using assms(1,2,3) by simp
  next
    case (Inr db2)
    then have eq: "db' = db2" "st' = fetchCheckups db2 uid st"
      using run by (auto simp: updateCheckupStatus_def)
    show ?thesis
      unfolding eq
      using update_keeps_other_rows [OF Inr assms(3) other] update_keeps_ids [OF Inr] assms(1)
            fetchCheckups_rows [of st db2 uid]
      by simp
  qed
qed

text \<open>
  The list shows the completed demo checkup; the click to cancel it does nothing.
\<close>

theorem terminal_status_kept_by_list_clicks_witness:
  "click_status_button sample_completed_database (u_id demo_doctor)
      (sample_doctor_checkups (checkups sample_completed_database))
      ((demo_checkup 0)\<lparr>c_status := Completed\<rparr>) Cancelled_arg
     = (sample_doctor_checkups (checkups sample_completed_database),
        sample_completed_database, [])
   \<and> (demo_checkup 0)\<lparr>c_status := Completed\<rparr> \<in> set (checkups sample_completed_database)"
proof -
  have run: "click_status_button sample_completed_database (u_id demo_doctor)
      (sample_doctor_checkups (checkups sample_completed_database))
      ((demo_checkup 0)\<lparr>c_status := Completed\<rparr>) Cancelled_arg
     = (sample_doctor_checkups (checkups sample_completed_database),
        sample_completed_database, [])"
    by (simp add: click_status_button_def status_buttons_def)
  have "(demo_checkup 0)\<lparr>c_status := Completed\<rparr> \<in> set (checkups sample_completed_database)
         \<and> distinct (map c_id (checkups sample_completed_database))
         \<and> (dk_user (sample_doctor_checkups (checkups sample_completed_database)) \<noteq> None \<longrightarrow>
              set (dk_checkups (sample_doctor_checkups (checkups sample_completed_database)))
                \<subseteq> set (checkups sample_completed_database))"
    by (rule terminal_status_kept_by_list_clicks [OF _ _ _ _ run])
       (simp_all add: sample_defs demo_defs)
  then show ?thesis using run by simp
qed

text \<open>
  C4, as the claim states it, fails: \<open>updateCheckupStatus\<close> does not look at the stored
  status. Called for the completed demo checkup it stores cancelled; so does a click in
  a list that still holds the checkup as upcoming.
\<close>

theorem completed_checkup_is_cancelled_counterexample:
  "map c_status (checkups sample_completed_database) = [Completed]
   \<and> map c_status (checkups (fst (snd (updateCheckupStatus sample_completed_database
        (u_id demo_doctor) (sample_doctor_checkups (checkups sample_completed_database))
        ''checkup-1'' Cancelled_arg)))) = [Cancelled]
   \<and> map c_status (checkups (fst (snd (click_status_button sample_completed_database
        (u_id demo_doctor) (sample_doctor_checkups [demo_checkup 0])
        (demo_checkup 0) Cancelled_arg)))) = [Cancelled]"
  by (simp add: click_status_button_def status_buttons_def updateCheckupStatus_def
        update_checkup_status_def doctors_can_manage_checkups_for_their_patients_def
        demo_defs sample_defs)

end
